theory Spec2Isabelle
  imports Main "HOL-Library.AList"
begin

section \<open>The BattlEye RCON transport: \<open>src/lib/socket.ts\<close>\<close>

text \<open>
  The class \<open>Socket\<close> owns one UDP socket of the Node runtime and a registry of
  \<open>Connection\<close> objects keyed by a digest of the remote address and port. It is modelled
  by explicit state passing over a record of its fields. Everything the class does to its
  collaborators (events it emits, methods it calls on a \<open>Connection\<close>, calls on the UDP
  socket) is appended to a trace, so that "is emitted", "is never invoked" and "is stored"
  are statements about that trace.

  The classes \<open>Connection\<close> and \<open>Packet\<close>, the module \<open>utils\<close> and the error classes are
  imported by \<open>socket.ts\<close> from sibling files, and the UDP socket is the runtime's. What
  \<open>socket.ts\<close> reads from them is kept as record fields; what it calls on them is a
  parameter, collected in the record \<open>env\<close>.
\<close>

subsection \<open>Data\<close>

type_synonym Buffer = "nat list"

text \<open>
  Errors. The first three are the classes \<open>socket.ts\<close> imports from \<open>./errors\<close> and
  constructs itself; \<open>TypeError\<close> is the built-in it constructs in \<open>send\<close>;
  \<open>ERR_SOCKET_DGRAM_NOT_RUNNING\<close> is an error of the runtime's UDP socket; \<open>DecodeError\<close>
  is the codec's error for a frame of malformed length; \<open>OtherError\<close> stands for any other
  error object a collaborator may throw.
\<close>

datatype error =
    ConnectionExists
  | InvalidPacket
  | UnknownConnection string string nat
  | TypeError string
  | ERR_SOCKET_DGRAM_NOT_RUNNING
  | DecodeError
  | OtherError string

datatype PacketType = Login | Command | Message

text \<open>
  Modelled from the spec: the class \<open>Packet\<close> (\<open>./packet\<close>), as the value with fields kind,
  sequence, payload, checksum and valid. \<open>socket.ts\<close> reads \<open>type\<close>, \<open>sequence\<close> and
  \<open>valid\<close>, and writes \<open>sequence\<close>; an unassigned sequence is a negative number.
\<close>

record Packet =
  ptype :: PacketType
  sequence :: int
  payload :: Buffer
  checksum :: nat
  valid :: bool

record IConnectionDetails =
  password :: string
  ip :: string
  port :: nat

type_synonym IConnectionOptions = "(string \<times> nat) list"

text \<open>
  Modelled from the spec: the class \<open>Connection\<close> (\<open>./connection\<close>), as far as \<open>socket.ts\<close>
  reads its fields: \<open>id\<close>, derived deterministically from address and port, \<open>ip\<close> and
  \<open>port\<close>. The protocol state of a connection is not part of this model; the methods
  \<open>socket.ts\<close> calls on it appear in the trace.
\<close>

record Connection =
  conn_id :: string
  conn_ip :: string
  conn_port :: nat
  conn_password :: string
  conn_options :: IConnectionOptions

text \<open>\<open>dgram.RemoteInfo\<close>: the two fields \<open>receive\<close> reads.\<close>

record RemoteInfo =
  address :: string
  remote_port :: nat

text \<open>The object \<open>send\<close> resolves its promise with.\<close>

record IPacketResponse =
  bytes :: nat
  sent :: Packet
  received :: "Packet option"
  response_connection :: Connection

text \<open>
  The object \<open>send\<close> hands to \<open>connection.store\<close>: the packet and the byte count; its
  \<open>resolve\<close> and \<open>reject\<close> fields are the continuations of the promise \<open>send\<close> returned,
  and \<open>cause\<close> is an \<open>Error\<close> created for its stack trace.
\<close>

record PendingCommand =
  pending_packet :: Packet
  pending_bytes :: nat

text \<open>
  A parameter that the TypeScript signature types as a class but that the code checks
  again with \<open>instanceof\<close> at run time.
\<close>

datatype 'a arg = Instance 'a | NotInstance

subsection \<open>Events and the trace\<close>

datatype socket_event =
    EvError error
  | EvListening
  | EvReceived bool Packet Buffer Connection RemoteInfo
  | EvSent Packet Buffer nat Connection

datatype connection_event =
    ConnError error
  | ConnReceived bool Packet Buffer RemoteInfo

datatype effect =
    Emit socket_event
  | ConnEmit Connection connection_event
  | ConnConnect Connection
  | ConnRecieve Connection Packet
  | ConnStore Connection PendingCommand
  | ConnKill Connection "error option"
  | DgramBind
  | DgramSend Buffer nat nat nat string
  | DgramClose

subsection \<open>The state of a \<open>Socket\<close>\<close>

text \<open>
  \<open>connections\<close> is the registry object: an association list in insertion order, which is
  the order \<open>Object.keys\<close> enumerates string keys that are not array indices (the keys are
  digests). \<open>info_listening\<close> is \<open>this.info.listening\<close>.

  \<open>Socket\<close> extends \<open>EventEmitter\<close>; \<open>error_listeners\<close> is the number of \<open>'error'\<close> listeners
  the application has registered on it with \<open>on('error', ...)\<close>. The class registers none
  on itself.

  \<open>socket_once_listening\<close> holds the one-shot \<open>'listening'\<close> listeners that \<open>connection\<close>
  registers on the UDP socket \<open>this.socket\<close> (each listener is the closure over its
  \<open>conn\<close>). \<open>connecting\<close> holds the connections whose \<open>connect()\<close> promise is pending with
  the \<open>catch\<close> handler of \<open>connection\<close> attached.

  \<open>trace\<close> is the sequence of calls made so far: events emitted, methods called on a
  \<open>Connection\<close>, calls on the UDP socket. A call is recorded whether or not it throws.
\<close>

record Socket =
  connections :: "(string \<times> Connection) list"
  info_listening :: bool
  error_listeners :: nat
  socket_once_listening :: "Connection list"
  connecting :: "Connection list"
  trace :: "effect list"

definition effect :: "effect \<Rightarrow> Socket \<Rightarrow> Socket" where
  "effect x s = s\<lparr>trace := trace s @ [x]\<rparr>"

definition listening :: "Socket \<Rightarrow> bool" where
  "listening s = info_listening s"

text \<open>The inherited \<open>on('error', listener)\<close>, called by the application.\<close>

definition on_error_listener :: "Socket \<Rightarrow> Socket" where
  "on_error_listener s = s\<lparr>error_listeners := Suc (error_listeners s)\<rparr>"

text \<open>
  The inherited \<open>emit\<close>. An \<open>'error'\<close> event emitted while no \<open>'error'\<close> listener is
  registered is thrown by \<open>emit\<close>; every other emit calls the listeners and returns. The
  listeners themselves are the application's and are taken to return normally. The
  result is the error thrown, if any, and the state.
\<close>

definition emit :: "socket_event \<Rightarrow> Socket \<Rightarrow> error option \<times> Socket" where
  "emit ev s =
     (case ev of
        EvError e \<Rightarrow> (if error_listeners s = 0 then Some e else None, effect (Emit ev) s)
      | _ \<Rightarrow> (None, effect (Emit ev) s))"

subsection \<open>The collaborators' functions\<close>

text \<open>
  \<open>hashAddress\<close> is \<open>utils.hashAddress\<close>; \<open>Packet_FROM\<close> is the static \<open>Packet.FROM\<close>, which
  returns a packet or throws; \<open>serialize\<close> is \<open>packet.serialize()\<close>, which returns a buffer
  or throws; \<open>conn_sequence\<close> is the getter \<open>connection.sequence\<close>; \<open>conn_recieve\<close> is the
  boolean \<open>connection.recieve(packet)\<close> returns; \<open>conn_store\<close> is the error
  \<open>connection.store(...)\<close> throws, if any; \<open>conn_emit\<close> is the error \<open>connection.emit(...)\<close>
  throws, if any.

  \<open>dgram_send\<close> and \<open>dgram_close\<close> are the errors that \<open>this.socket.send(...)\<close> and
  \<open>this.socket.close()\<close> throw synchronously, if any, when called in the given state of the
  \<open>Socket\<close>, whose trace holds the calls made on the UDP socket before.
\<close>

record env =
  hashAddress :: "string \<Rightarrow> nat \<Rightarrow> string"
  Packet_FROM :: "Buffer \<Rightarrow> error + Packet"
  serialize :: "Packet \<Rightarrow> error + Buffer"
  conn_sequence :: "Connection \<Rightarrow> int"
  conn_recieve :: "Connection \<Rightarrow> Packet \<Rightarrow> bool"
  conn_store :: "Connection \<Rightarrow> PendingCommand \<Rightarrow> error option"
  conn_emit :: "Connection \<Rightarrow> connection_event \<Rightarrow> error option"
  dgram_send :: "Socket \<Rightarrow> Buffer \<Rightarrow> nat \<Rightarrow> nat \<Rightarrow> nat \<Rightarrow> string \<Rightarrow> error option"
  dgram_close :: "Socket \<Rightarrow> error option"

subsection \<open>Constructor and the handlers it registers\<close>

definition new_Socket :: Socket where
  "new_Socket =
     \<lparr>connections = [], info_listening = False, error_listeners = 0,
      socket_once_listening = [], connecting = [], trace = [DgramBind]\<rparr>"

text \<open>
  \<open>conn.connect().catch((e) => this.emit('error', e))\<close>: the call, and the handler. An
  exception of the \<open>emit\<close> inside the handler rejects the promise that \<open>catch\<close> returned,
  which nobody holds; the state is the one the \<open>emit\<close> leaves.
\<close>

definition connect_catch :: "Connection \<Rightarrow> Socket \<Rightarrow> Socket" where
  "connect_catch conn s = effect (ConnConnect conn) (s\<lparr>connecting := connecting s @ [conn]\<rparr>)"

definition connect_rejected :: "Connection \<Rightarrow> error \<Rightarrow> Socket \<Rightarrow> Socket" where
  "connect_rejected conn e s =
     (if conn \<in> set (connecting s)
      then snd (emit (EvError e) (s\<lparr>connecting := remove1 conn (connecting s)\<rparr>))
      else s)"

text \<open>
  \<open>close\<close>: the loop over \<open>Object.keys(this.connections)\<close>, then \<open>this.socket.close()\<close>.
  An exception of the latter leaves the kills done.
\<close>

fun close_loop :: "string list \<Rightarrow> error option \<Rightarrow> Socket \<Rightarrow> Socket" where
  "close_loop [] err s = s"
| "close_loop (k # ks) err s =
     (case map_of (connections s) k of
        Some conn \<Rightarrow> close_loop ks err (effect (ConnKill conn err) s)
      | None \<Rightarrow> close_loop ks err s)"

definition close :: "env \<Rightarrow> error option \<Rightarrow> Socket \<Rightarrow> error option \<times> Socket" where
  "close env err s =
     (let s1 = close_loop (map fst (connections s)) err s
      in (dgram_close env s1, effect DgramClose s1))"

text \<open>
  The handlers of the UDP socket's \<open>'error'\<close>, \<open>'listening'\<close> and \<open>'close'\<close> events. In the
  first, an exception of the \<open>emit\<close> leaves the handler before \<open>this.close(err)\<close>.
\<close>

definition on_error :: "env \<Rightarrow> error \<Rightarrow> Socket \<Rightarrow> error option \<times> Socket" where
  "on_error env err s =
     (case emit (EvError err) (s\<lparr>info_listening := False\<rparr>) of
        (Some e, s1) \<Rightarrow> (Some e, s1)
      | (None, s1) \<Rightarrow> close env (Some err) s1)"

text \<open>
  On \<open>'listening'\<close> the constructor's handler runs first, then the one-shot listeners in
  the order of their registration, each removed before it runs. The event emitted is not
  an \<open>'error'\<close>.
\<close>

definition on_listening :: "Socket \<Rightarrow> Socket" where
  "on_listening s =
     (let s1 = snd (emit EvListening (s\<lparr>info_listening := True\<rparr>))
      in foldl (\<lambda>s' conn. connect_catch conn s')
           (s1\<lparr>socket_once_listening := []\<rparr>) (socket_once_listening s1))"

definition on_close :: "Socket \<Rightarrow> Socket" where
  "on_close s = s\<lparr>info_listening := False\<rparr>"

subsection \<open>\<open>Socket.connection\<close>\<close>

text \<open>
  Modelled from the spec: the constructor of \<open>Connection\<close>, which derives the id from the
  address and the port deterministically; \<open>receive\<close> computes the key of a datagram with
  \<open>utils.hashAddress\<close>, so the id is that function of \<open>details.ip\<close> and \<open>details.port\<close>.
\<close>

definition new_Connection :: "env \<Rightarrow> IConnectionDetails \<Rightarrow> IConnectionOptions \<Rightarrow> Connection" where
  "new_Connection env details options =
     \<lparr>conn_id = hashAddress env (ip details) (port details),
      conn_ip = ip details, conn_port = port details,
      conn_password = password details, conn_options = options\<rparr>"

text \<open>The parameters \<open>options\<close> and \<open>connect\<close> are optional, with defaults \<open>{}\<close> and \<open>true\<close>.\<close>

definition connection ::
  "env \<Rightarrow> IConnectionDetails \<Rightarrow> IConnectionOptions option \<Rightarrow> bool option \<Rightarrow> Socket
     \<Rightarrow> (error + Connection) \<times> Socket" where
  "connection env details options connect s =
     (let conn = new_Connection env details (case options of None \<Rightarrow> [] | Some opts \<Rightarrow> opts)
      in if map_of (connections s) (conn_id conn) \<noteq> None
         then (Inl ConnectionExists, s)
         else
           let s1 =
             (if (case connect of None \<Rightarrow> True | Some b \<Rightarrow> b)
              then (if listening s
                    then connect_catch conn s
                    else s\<lparr>socket_once_listening := socket_once_listening s @ [conn]\<rparr>)
              else s)
           in (Inr conn,
               s1\<lparr>connections := AList.update (conn_id conn) conn (connections s1)\<rparr>))"

subsection \<open>\<open>Socket.receive\<close>\<close>

text \<open>
  The result is the exception that leaves \<open>receive\<close>, if any, and the state. On the two
  error paths an exception of the \<open>Socket\<close>'s \<open>emit\<close> leaves \<open>receive\<close> before
  \<open>connection.emit\<close> is reached.
\<close>

definition receive :: "env \<Rightarrow> Buffer \<Rightarrow> RemoteInfo \<Rightarrow> Socket \<Rightarrow> error option \<times> Socket" where
  "receive env buffer rinfo s =
     (let key = hashAddress env (address rinfo) (remote_port rinfo)
      in case map_of (connections s) key of
           None \<Rightarrow>
             emit (EvError (UnknownConnection key (address rinfo) (remote_port rinfo))) s
         | Some conn \<Rightarrow>
             (case Packet_FROM env buffer of
                Inl e \<Rightarrow>
                  (case emit (EvError e) s of
                     (Some x, s1) \<Rightarrow> (Some x, s1)
                   | (None, s1) \<Rightarrow>
                       (conn_emit env conn (ConnError e),
                        effect (ConnEmit conn (ConnError e)) s1))
              | Inr packet \<Rightarrow>
                  if \<not> valid packet
                  then
                    (case emit (EvError InvalidPacket) s of
                       (Some x, s1) \<Rightarrow> (Some x, s1)
                     | (None, s1) \<Rightarrow>
                         (conn_emit env conn (ConnError InvalidPacket),
                          effect (ConnEmit conn (ConnError InvalidPacket)) s1))
                  else
                    let resolved = conn_recieve env conn packet;
                        s1 = effect (ConnRecieve conn packet) s;
                        s2 = snd (emit (EvReceived resolved packet buffer conn rinfo) s1)
                    in (conn_emit env conn (ConnReceived resolved packet buffer rinfo),
                        effect (ConnEmit conn (ConnReceived resolved packet buffer rinfo)) s2)))"

subsection \<open>\<open>Socket.send\<close>\<close>

text \<open>
  The executor of the promise runs synchronously up to the call of the UDP socket's
  \<open>send\<close>; an exception thrown inside it rejects the promise. The callback of that
  \<open>send\<close> runs later, with the variables it closes over.
\<close>

datatype settled = Resolved IPacketResponse | Rejected error

record send_closure =
  closure_packet :: Packet
  closure_buffer :: Buffer
  closure_connection :: Connection
  closure_resolve :: bool

datatype send_state = Settled settled | Sending send_closure

definition assign_sequence :: "env \<Rightarrow> Connection \<Rightarrow> Packet \<Rightarrow> Packet" where
  "assign_sequence env conn packet =
     (if ptype packet = Command \<and> sequence packet < 0
      then packet\<lparr>sequence := conn_sequence env conn\<rparr>
      else packet)"

text \<open>
  The result is the state of the promise when the executor returns, the packet object as
  the call leaves it, and the socket.
\<close>

definition send ::
  "env \<Rightarrow> Connection arg \<Rightarrow> Packet arg \<Rightarrow> bool option \<Rightarrow> Socket
     \<Rightarrow> send_state \<times> Packet arg \<times> Socket" where
  "send env conn packet resolve s =
     (case packet of
        NotInstance \<Rightarrow>
          (Settled (Rejected (TypeError ''packet must be an instance of BEPacket'')),
           packet, s)
      | Instance p \<Rightarrow>
          if \<not> valid p then (Settled (Rejected InvalidPacket), packet, s)
          else
            (case conn of
               NotInstance \<Rightarrow>
                 (Settled (Rejected (TypeError ''connection must be an instance of Connection'')),
                  packet, s)
             | Instance c \<Rightarrow>
                 let p' = assign_sequence env c p
                 in (case serialize env p' of
                       Inl e \<Rightarrow> (Settled (Rejected e), Instance p', s)
                     | Inr buffer \<Rightarrow>
                         let s1 = effect (DgramSend buffer 0 (length buffer) (conn_port c)
                                    (conn_ip c)) s
                         in (case dgram_send env s buffer 0 (length buffer) (conn_port c)
                                    (conn_ip c) of
                               Some e \<Rightarrow> (Settled (Rejected e), Instance p', s1)
                             | None \<Rightarrow>
                                 (Sending
                                    \<lparr>closure_packet = p', closure_buffer = buffer,
                                     closure_connection = c,
                                     closure_resolve =
                                       (case resolve of None \<Rightarrow> True | Some b \<Rightarrow> b)\<rparr>,
                                  Instance p', s1)))))"

text \<open>
  The callback of the UDP socket's \<open>send\<close>. The result \<open>None\<close> is a promise left pending,
  its continuations handed to \<open>connection.store\<close>. The event emitted is not an \<open>'error'\<close>.
\<close>

definition send_callback ::
  "env \<Rightarrow> send_closure \<Rightarrow> error option \<Rightarrow> nat \<Rightarrow> Socket \<Rightarrow> settled option \<times> Socket" where
  "send_callback env cl err n s =
     (case err of
        Some e \<Rightarrow> (Some (Rejected e), s)
      | None \<Rightarrow>
          let s1 = snd (emit (EvSent (closure_packet cl) (closure_buffer cl) n
                          (closure_connection cl)) s)
          in if closure_resolve cl
             then
               (let pc = \<lparr>pending_packet = closure_packet cl, pending_bytes = n\<rparr>;
                    s2 = effect (ConnStore (closure_connection cl) pc) s1
                in case conn_store env (closure_connection cl) pc of
                     Some e \<Rightarrow> (Some (Rejected e), s2)
                   | None \<Rightarrow> (None, s2))
             else
               (Some (Resolved
                        \<lparr>bytes = n, sent = closure_packet cl, received = None,
                         response_connection = closure_connection cl\<rparr>),
                s1))"

subsection \<open>A sample environment\<close>

text \<open>
  One instance of the collaborators, used to run the model on concrete inputs: the key of
  an address is \<open>address:port\<close> in decimal; the codec rejects the empty datagram as
  malformed and reports as valid the frames that start with the byte 66; the emitters of
  the connections have listeners; the UDP socket throws \<open>ERR_SOCKET_DGRAM_NOT_RUNNING\<close>
  from \<open>send\<close> and from \<open>close\<close> once \<open>close\<close> has been called on it.
\<close>

fun decimal :: "nat \<Rightarrow> string" where
  "decimal n =
     (if n < 10 then [''0123456789'' ! n]
      else decimal (n div 10) @ [''0123456789'' ! (n mod 10)])"

definition sample_env :: env where
  "sample_env =
     \<lparr>hashAddress = (\<lambda>a p. a @ '':'' @ decimal p),
      Packet_FROM = (\<lambda>b. if b = [] then Inl DecodeError
                          else Inr \<lparr>ptype = Message, sequence = 0, payload = tl b,
                                    checksum = 0, valid = (hd b = 66)\<rparr>),
      serialize = (\<lambda>p. Inr (66 # payload p)),
      conn_sequence = (\<lambda>c. 7),
      conn_recieve = (\<lambda>c p. True),
      conn_store = (\<lambda>c pc. None),
      conn_emit = (\<lambda>c ev. None),
      dgram_send = (\<lambda>s buffer offset len prt addr.
         if DgramClose \<in> set (trace s) then Some ERR_SOCKET_DGRAM_NOT_RUNNING else None),
      dgram_close = (\<lambda>s.
         if DgramClose \<in> set (trace s) then Some ERR_SOCKET_DGRAM_NOT_RUNNING else None)\<rparr>"

definition sample_details :: IConnectionDetails where
  "sample_details = \<lparr>password = ''secret'', ip = ''10.0.0.1'', port = 2302\<rparr>"

definition sample_conn :: Connection where
  "sample_conn = new_Connection sample_env sample_details []"

text \<open>
  Two sockets with one registered connection that is not connected automatically:
  \<open>bare_socket\<close> as the constructor leaves it, with no \<open>'error'\<close> listener, and
  \<open>sample_socket\<close> with one \<open>'error'\<close> listener registered by the application.
\<close>

definition bare_socket :: Socket where
  "bare_socket = snd (connection sample_env sample_details None (Some False) new_Socket)"

definition sample_socket :: Socket where
  "sample_socket =
     snd (connection sample_env sample_details None (Some False) (on_error_listener new_Socket))"

definition sample_rinfo :: RemoteInfo where
  "sample_rinfo = \<lparr>address = ''10.0.0.1'', remote_port = 2302\<rparr>"

definition sample_command :: Packet where
  "sample_command =
     \<lparr>ptype = Command, sequence = - 1, payload = [1, 2], checksum = 0, valid = True\<rparr>"

section \<open>Auxiliary facts\<close>

lemma decimal_2302: "decimal 2302 = ''2302''"
  by code_simp

lemma sample_conn_eq:
  "sample_conn = \<lparr>conn_id = ''10.0.0.1:2302'', conn_ip = ''10.0.0.1'',
         conn_port = 2302, conn_password = ''secret'', conn_options = []\<rparr>"
  by (simp add: sample_conn_def new_Connection_def sample_env_def sample_details_def decimal_2302)

lemma bare_socket_eq:
  "bare_socket = \<lparr>connections = [(''10.0.0.1:2302'', sample_conn)],
    info_listening = False, error_listeners = 0,
    socket_once_listening = [], connecting = [], trace = [DgramBind]\<rparr>"
  by (simp add: bare_socket_def connection_def new_Socket_def Let_def
      new_Connection_def sample_env_def sample_details_def decimal_2302 sample_conn_eq)

lemma sample_socket_eq:
  "sample_socket = \<lparr>connections = [(''10.0.0.1:2302'', sample_conn)],
    info_listening = False, error_listeners = 1,
    socket_once_listening = [], connecting = [], trace = [DgramBind]\<rparr>"
  by (simp add: sample_socket_def connection_def new_Socket_def on_error_listener_def Let_def
      new_Connection_def sample_env_def sample_details_def decimal_2302 sample_conn_eq)

lemma sample_hash [simp]:
  "hashAddress sample_env a 2302 = a @ '':2302''"
  by (simp add: sample_env_def decimal_2302)

lemma sample_dgram_close [simp]:
  "dgram_close sample_env s =
     (if DgramClose \<in> set (trace s) then Some ERR_SOCKET_DGRAM_NOT_RUNNING else None)"
  by (simp add: sample_env_def)

lemma sample_dgram_send [simp]:
  "dgram_send sample_env s buffer offset len prt addr =
     (if DgramClose \<in> set (trace s) then Some ERR_SOCKET_DGRAM_NOT_RUNNING else None)"
  by (simp add: sample_env_def)

lemma update_fresh: "map_of al k = None \<Longrightarrow> AList.update k v al = al @ [(k, v)]"
  by (induction al) (auto split: if_splits)

lemma effect_simps [simp]:
  "connections (effect x s) = connections s"
  "info_listening (effect x s) = info_listening s"
  "error_listeners (effect x s) = error_listeners s"
  "socket_once_listening (effect x s) = socket_once_listening s"
  "connecting (effect x s) = connecting s"
  "trace (effect x s) = trace s @ [x]"
  by (simp_all add: effect_def)

lemma emit_error:
  "emit (EvError e) s =
     (if error_listeners s = 0 then Some e else None, s\<lparr>trace := trace s @ [Emit (EvError e)]\<rparr>)"
  by (simp add: emit_def effect_def)

lemma snd_emit: "snd (emit ev s) = s\<lparr>trace := trace s @ [Emit ev]\<rparr>"
  by (cases ev) (simp_all add: emit_def effect_def)

lemma close_loop_eq:
  "set ks \<subseteq> fst ` set (connections s) \<Longrightarrow>
   close_loop ks err s =
     s\<lparr>trace := trace s @ map (\<lambda>k. ConnKill (the (map_of (connections s) k)) err) ks\<rparr>"
proof (induction ks arbitrary: s)
  case Nil
  show ?case by simp
next
  case (Cons k ks)
  from Cons.prems obtain c where c: "map_of (connections s) k = Some c"
    by (cases "map_of (connections s) k") (auto simp: map_of_eq_None_iff)
  have "set ks \<subseteq> fst ` set (connections (effect (ConnKill c err) s))"
    using Cons.prems by simp
  from Cons.IH [OF this] show ?case
    using c by (simp add: effect_def)
qed

lemma foldl_connect_catch:
  "foldl (\<lambda>s' conn. connect_catch conn s') s cs =
     s\<lparr>connecting := connecting s @ cs, trace := trace s @ map ConnConnect cs\<rparr>"
  by (induction cs arbitrary: s) (simp_all add: connect_catch_def effect_def)

lemma connection_result:
  assumes "map_of (connections s) (hashAddress env (ip details) (port details)) = None"
  shows "fst (connection env details options connect s) =
           Inr (new_Connection env details (case options of None \<Rightarrow> [] | Some opts \<Rightarrow> opts))"
    and "connections (snd (connection env details options connect s)) =
           connections s @
             [(hashAddress env (ip details) (port details),
               new_Connection env details (case options of None \<Rightarrow> [] | Some opts \<Rightarrow> opts))]"
  using assms
  by (simp_all add: connection_def new_Connection_def connect_catch_def Let_def update_fresh
        del: AList.update.simps)

lemma close_eq:
  "close env err s =
     (dgram_close env
        (s\<lparr>trace := trace s @
           map (\<lambda>k. ConnKill (the (map_of (connections s) k)) err) (map fst (connections s))\<rparr>),
      s\<lparr>trace := trace s @
          map (\<lambda>k. ConnKill (the (map_of (connections s) k)) err) (map fst (connections s)) @
          [DgramClose]\<rparr>)"
proof -
  have "set (map fst (connections s)) \<subseteq> fst ` set (connections s)"
    by simp
  from close_loop_eq [OF this, of err] show ?thesis
    by (simp add: close_def Let_def effect_def)
qed

lemma kill_mem:
  assumes "map_of al k = Some c"
  shows "ConnKill c err \<in> set (map (\<lambda>k. ConnKill (the (map_of al k)) err) (map fst al))"
proof -
  from assms have m: "(k, c) \<in> set al"
    by (rule map_of_SomeD)
  have "ConnKill c err = (\<lambda>x. ConnKill (the (map_of al (fst x))) err) (k, c)"
    using assms by simp
  with m have "ConnKill c err \<in> (\<lambda>x. ConnKill (the (map_of al (fst x))) err) ` set al"
    by (rule rev_image_eqI)
  then show ?thesis
    by (simp add: comp_def)
qed

lemma on_listening_eq:
  "on_listening s =
     s\<lparr>info_listening := True, socket_once_listening := [],
       connecting := connecting s @ socket_once_listening s,
       trace := trace s @ [Emit EvListening] @ map ConnConnect (socket_once_listening s)\<rparr>"
  by (simp add: on_listening_def Let_def foldl_connect_catch snd_emit)

lemma send_valid:
  assumes "valid p"
  shows "send env (Instance c) (Instance p) resolve s =
     (case serialize env (assign_sequence env c p) of
        Inl e \<Rightarrow> (Settled (Rejected e), Instance (assign_sequence env c p), s)
      | Inr buffer \<Rightarrow>
          (case dgram_send env s buffer 0 (length buffer) (conn_port c) (conn_ip c) of
             None \<Rightarrow>
               Sending \<lparr>closure_packet = assign_sequence env c p, closure_buffer = buffer,
                  closure_connection = c,
                  closure_resolve = (case resolve of None \<Rightarrow> True | Some b \<Rightarrow> b)\<rparr>
           | Some e \<Rightarrow> Settled (Rejected e),
           Instance (assign_sequence env c p),
           s\<lparr>trace := trace s @ [DgramSend buffer 0 (length buffer) (conn_port c) (conn_ip c)]\<rparr>))"
  using assms
  by (simp add: send_def Let_def effect_def split: sum.splits option.splits)

section \<open>Properties of the transport\<close>

text \<open>
  C1 (amended). For an inbound datagram whose address and port key a registered
  \<open>Connection\<close>, let \<open>e\<close> be the error that decoding the buffer throws, or an
  \<open>InvalidPacket\<close> if the decoded packet has \<open>valid == false\<close>. \<open>receive\<close> emits \<open>e\<close> as
  \<open>'error'\<close> on the \<open>Socket\<close>. If the \<open>Socket\<close> has an \<open>'error'\<close> listener, \<open>receive\<close> then
  emits \<open>e\<close> on the matched \<open>Connection\<close> (and throws what that emit throws, if anything);
  if it has none, the first emit throws \<open>e\<close> out of \<open>receive\<close> and the \<open>Connection\<close> is not
  notified. In every case nothing else happens:
  \<open>connection.recieve\<close> is not called, no \<open>'received'\<close> event is emitted and the registry is
  unchanged.
\<close>

theorem receive_invalid:
  assumes "map_of (connections s) (hashAddress env (address rinfo) (remote_port rinfo)) = Some c"
    and "Packet_FROM env buffer = Inl e \<or>
         (\<exists>p. Packet_FROM env buffer = Inr p \<and> \<not> valid p \<and> e = InvalidPacket)"
  shows "receive env buffer rinfo s =
           (if error_listeners s = 0
            then (Some e, s\<lparr>trace := trace s @ [Emit (EvError e)]\<rparr>)
            else (conn_emit env c (ConnError e),
                  s\<lparr>trace := trace s @ [Emit (EvError e), ConnEmit c (ConnError e)]\<rparr>))"
  using assms by (auto simp: receive_def emit_error effect_def)

theorem receive_invalid_witness:
  "map_of (connections sample_socket)
     (hashAddress sample_env (address sample_rinfo) (remote_port sample_rinfo)) = Some sample_conn
   \<and> Packet_FROM sample_env [] = Inl DecodeError
   \<and> receive sample_env [] sample_rinfo sample_socket =
       (None, sample_socket\<lparr>trace := trace sample_socket @
         [Emit (EvError DecodeError), ConnEmit sample_conn (ConnError DecodeError)]\<rparr>)
   \<and> (\<exists>p. Packet_FROM sample_env [65, 1] = Inr p \<and> \<not> valid p)
   \<and> receive sample_env [65, 1] sample_rinfo sample_socket =
       (None, sample_socket\<lparr>trace := trace sample_socket @
         [Emit (EvError InvalidPacket), ConnEmit sample_conn (ConnError InvalidPacket)]\<rparr>)"
proof -
  have k: "map_of (connections sample_socket)
     (hashAddress sample_env (address sample_rinfo) (remote_port sample_rinfo)) = Some sample_conn"
    by (simp add: sample_socket_eq sample_rinfo_def)
  have d: "Packet_FROM sample_env [] = Inl DecodeError"
    by (simp add: sample_env_def)
  have v: "\<exists>p. Packet_FROM sample_env [65, 1] = Inr p \<and> \<not> valid p \<and> InvalidPacket = InvalidPacket"
    by (simp add: sample_env_def)
  have l: "error_listeners sample_socket = 1"
    by (simp add: sample_socket_eq)
  have c: "conn_emit sample_env sample_conn ev = None" for ev
    by (simp add: sample_env_def)
  show ?thesis
    using k d v receive_invalid [OF k disjI1 [OF d]] receive_invalid [OF k disjI2 [OF v]]
    by (simp add: l c)
qed

text \<open>
  C1 as stated fails in two ways. Where the codec throws an error that is not an
  \<open>InvalidPacket\<close> (the sample codec throws \<open>DecodeError\<close> for the empty datagram), that
  error, not an \<open>InvalidPacket\<close>, is what both emitters receive. And on a \<open>Socket\<close> without
  an \<open>'error'\<close> listener a datagram that decodes to an invalid packet makes \<open>receive\<close> throw
  at the first emit, so that nothing is emitted on the \<open>Connection\<close>.
\<close>

theorem receive_decode_error_counterexample:
  "map_of (connections sample_socket)
     (hashAddress sample_env (address sample_rinfo) (remote_port sample_rinfo)) = Some sample_conn
   \<and> Packet_FROM sample_env [] = Inl DecodeError
   \<and> trace (snd (receive sample_env [] sample_rinfo sample_socket)) =
       [DgramBind, Emit (EvError DecodeError), ConnEmit sample_conn (ConnError DecodeError)]
   \<and> Emit (EvError InvalidPacket)
        \<notin> set (trace (snd (receive sample_env [] sample_rinfo sample_socket)))
   \<and> ConnEmit sample_conn (ConnError InvalidPacket)
        \<notin> set (trace (snd (receive sample_env [] sample_rinfo sample_socket)))
   \<and> map_of (connections bare_socket)
        (hashAddress sample_env (address sample_rinfo) (remote_port sample_rinfo)) = Some sample_conn
   \<and> Packet_FROM sample_env [65, 1] =
        Inr \<lparr>ptype = Message, sequence = 0, payload = [1], checksum = 0, valid = False\<rparr>
   \<and> receive sample_env [65, 1] sample_rinfo bare_socket =
        (Some InvalidPacket, bare_socket\<lparr>trace := [DgramBind, Emit (EvError InvalidPacket)]\<rparr>)
   \<and> ConnEmit sample_conn (ConnError InvalidPacket)
        \<notin> set (trace (snd (receive sample_env [65, 1] sample_rinfo bare_socket)))"
proof -
  have h: "hashAddress sample_env (address sample_rinfo) (remote_port sample_rinfo) =
      ''10.0.0.1:2302''"
    by (simp add: sample_rinfo_def)
  have d: "Packet_FROM sample_env [] = Inl DecodeError"
    and v: "Packet_FROM sample_env [65, 1] =
        Inr \<lparr>ptype = Message, sequence = 0, payload = [1], checksum = 0, valid = False\<rparr>"
    and c: "\<And>ev. conn_emit sample_env sample_conn ev = None"
    by (simp_all add: sample_env_def)
  have 1: "receive sample_env [] sample_rinfo sample_socket =
      (None, sample_socket\<lparr>trace := [DgramBind, Emit (EvError DecodeError),
         ConnEmit sample_conn (ConnError DecodeError)]\<rparr>)"
    unfolding receive_def Let_def h d
    by (simp add: emit_error effect_def c sample_socket_eq)
  have 2: "receive sample_env [65, 1] sample_rinfo bare_socket =
        (Some InvalidPacket, bare_socket\<lparr>trace := [DgramBind, Emit (EvError InvalidPacket)]\<rparr>)"
    unfolding receive_def Let_def h v
    by (simp add: emit_error effect_def bare_socket_eq)
  have k: "map_of (connections sample_socket)
     (hashAddress sample_env (address sample_rinfo) (remote_port sample_rinfo)) = Some sample_conn"
    "map_of (connections bare_socket)
     (hashAddress sample_env (address sample_rinfo) (remote_port sample_rinfo)) = Some sample_conn"
    unfolding h by (simp_all add: sample_socket_eq bare_socket_eq)
  have 3: "Emit (EvError InvalidPacket)
        \<notin> set (trace (snd (receive sample_env [] sample_rinfo sample_socket)))"
    "ConnEmit sample_conn (ConnError InvalidPacket)
        \<notin> set (trace (snd (receive sample_env [] sample_rinfo sample_socket)))"
    "trace (snd (receive sample_env [] sample_rinfo sample_socket)) =
       [DgramBind, Emit (EvError DecodeError), ConnEmit sample_conn (ConnError DecodeError)]"
    unfolding 1 by simp_all
  have 4: "ConnEmit sample_conn (ConnError InvalidPacket)
        \<notin> set (trace (snd (receive sample_env [65, 1] sample_rinfo bare_socket)))"
    unfolding 2 by simp
  from k d v 2 3 4 show ?thesis
    by blast
qed

text \<open>
  C3. \<open>connection(details, options, connect)\<close>: if the registry holds an entry under the id
  derived from the given address and port, the call throws \<open>ConnectionExists\<close> and the
  \<open>Socket\<close> is unchanged; otherwise the call returns the new \<open>Connection\<close>, whose id is
  that id, and the registry is the old one with exactly that connection added under its id.
\<close>

theorem connection_exists_or_registers:
  "(map_of (connections s) (hashAddress env (ip details) (port details)) \<noteq> None \<longrightarrow>
      connection env details options connect s = (Inl ConnectionExists, s))
   \<and> (map_of (connections s) (hashAddress env (ip details) (port details)) = None \<longrightarrow>
        (\<exists>conn. fst (connection env details options connect s) = Inr conn
           \<and> conn_id conn = hashAddress env (ip details) (port details)
           \<and> conn_ip conn = ip details \<and> conn_port conn = port details
           \<and> connections (snd (connection env details options connect s)) =
               connections s @ [(conn_id conn, conn)]
           \<and> map_of (connections (snd (connection env details options connect s))) =
               (map_of (connections s))(conn_id conn \<mapsto> conn)))"
proof (intro conjI impI)
  assume "map_of (connections s) (hashAddress env (ip details) (port details)) \<noteq> None"
  then show "connection env details options connect s = (Inl ConnectionExists, s)"
    by (simp add: connection_def new_Connection_def)
next
  let ?key = "hashAddress env (ip details) (port details)"
  let ?conn = "new_Connection env details (case options of None \<Rightarrow> [] | Some opts \<Rightarrow> opts)"
  assume fresh: "map_of (connections s) ?key = None"
  have upd: "map_of (connections s @ [(?key, ?conn)]) = (map_of (connections s))(?key \<mapsto> ?conn)"
    using update_fresh [OF fresh, of ?conn] AList.update_conv' [of ?key ?conn "connections s"]
    by simp
  show "\<exists>conn. fst (connection env details options connect s) = Inr conn
           \<and> conn_id conn = ?key
           \<and> conn_ip conn = ip details \<and> conn_port conn = port details
           \<and> connections (snd (connection env details options connect s)) =
               connections s @ [(conn_id conn, conn)]
           \<and> map_of (connections (snd (connection env details options connect s))) =
               (map_of (connections s))(conn_id conn \<mapsto> conn)"
  proof (intro exI [of _ ?conn] conjI)
    show "fst (connection env details options connect s) = Inr ?conn"
      by (rule connection_result(1) [OF fresh])
    show id: "conn_id ?conn = ?key" "conn_ip ?conn = ip details" "conn_port ?conn = port details"
      by (simp_all add: new_Connection_def)
    show "connections (snd (connection env details options connect s)) =
            connections s @ [(conn_id ?conn, ?conn)]"
      using connection_result(2) [OF fresh] id by simp
    then show "map_of (connections (snd (connection env details options connect s))) =
            (map_of (connections s))(conn_id ?conn \<mapsto> ?conn)"
      using upd id by simp
  qed
qed

theorem connection_exists_or_registers_witness:
  "map_of (connections sample_socket) (hashAddress sample_env (ip sample_details) (port sample_details))
     \<noteq> None
   \<and> connection sample_env sample_details None None sample_socket =
       (Inl ConnectionExists, sample_socket)
   \<and> map_of (connections new_Socket) (hashAddress sample_env (ip sample_details) (port sample_details))
       = None
   \<and> (\<exists>conn. fst (connection sample_env sample_details None None new_Socket) = Inr conn
        \<and> conn_id conn = ''10.0.0.1:2302''
        \<and> connections (snd (connection sample_env sample_details None None new_Socket)) =
             [(''10.0.0.1:2302'', conn)])"
proof -
  have k: "hashAddress sample_env (ip sample_details) (port sample_details) = ''10.0.0.1:2302''"
    by (simp add: sample_details_def)
  have 1: "map_of (connections sample_socket)
      (hashAddress sample_env (ip sample_details) (port sample_details)) \<noteq> None"
    by (simp add: k sample_socket_eq)
  have 2: "map_of (connections new_Socket)
      (hashAddress sample_env (ip sample_details) (port sample_details)) = None"
    by (simp add: new_Socket_def)
  have e: "connections new_Socket = []"
    by (simp add: new_Socket_def)
  from 1 connection_exists_or_registers [of sample_socket sample_env sample_details None None]
  have 3: "connection sample_env sample_details None None sample_socket =
       (Inl ConnectionExists, sample_socket)"
    by simp
  from 2 connection_exists_or_registers [of new_Socket sample_env sample_details None None]
  obtain conn where "fst (connection sample_env sample_details None None new_Socket) = Inr conn"
    and "conn_id conn = hashAddress sample_env (ip sample_details) (port sample_details)"
    and "connections (snd (connection sample_env sample_details None None new_Socket)) =
           connections new_Socket @ [(conn_id conn, conn)]"
    by blast
  then have "fst (connection sample_env sample_details None None new_Socket) = Inr conn
        \<and> conn_id conn = ''10.0.0.1:2302''
        \<and> connections (snd (connection sample_env sample_details None None new_Socket)) =
             [(''10.0.0.1:2302'', conn)]"
    using k e by simp
  then show ?thesis
    using 1 2 3 by blast
qed

text \<open>
  C4. \<open>send\<close> with a packet whose \<open>valid\<close> is false: the promise is rejected with
  \<open>InvalidPacket\<close>; the \<open>Socket\<close> and its trace are unchanged, so nothing was handed to the
  UDP socket and \<open>connection.store\<close> was not called; the packet is unchanged.
\<close>

theorem send_invalid:
  assumes "\<not> valid p"
  shows "send env conn (Instance p) resolve s = (Settled (Rejected InvalidPacket), Instance p, s)"
  using assms by (simp add: send_def)

theorem send_invalid_witness:
  "\<not> valid \<lparr>ptype = Command, sequence = - 1, payload = [1, 2], checksum = 0, valid = False\<rparr>
   \<and> send sample_env (Instance sample_conn)
        (Instance \<lparr>ptype = Command, sequence = - 1, payload = [1, 2], checksum = 0, valid = False\<rparr>)
        None sample_socket =
       (Settled (Rejected InvalidPacket),
        Instance \<lparr>ptype = Command, sequence = - 1, payload = [1, 2], checksum = 0, valid = False\<rparr>,
        sample_socket)"
  using send_invalid [of "\<lparr>ptype = Command, sequence = - 1, payload = [1, 2], checksum = 0, valid = False\<rparr>"
      sample_env "Instance sample_conn" None sample_socket]
  by simp

text \<open>
  C5. For an inbound datagram whose key matches no registered \<open>Connection\<close>, \<open>receive\<close>
  emits one \<open>UnknownConnection\<close> error on the \<open>Socket\<close> and does nothing else: no event on
  any \<open>Connection\<close>, the registry unchanged, and the result does not depend on the codec
  (the buffer is not decoded). The emit throws that error out of \<open>receive\<close> exactly when
  the \<open>Socket\<close> has no \<open>'error'\<close> listener.
\<close>

theorem receive_unknown:
  assumes "map_of (connections s) (hashAddress env (address rinfo) (remote_port rinfo)) = None"
  shows "receive env buffer rinfo s =
           (if error_listeners s = 0
            then Some (UnknownConnection
                (hashAddress env (address rinfo) (remote_port rinfo))
                (address rinfo) (remote_port rinfo))
            else None,
            s\<lparr>trace := trace s @
             [Emit (EvError (UnknownConnection
                (hashAddress env (address rinfo) (remote_port rinfo))
                (address rinfo) (remote_port rinfo)))]\<rparr>)
         \<and> receive (env\<lparr>Packet_FROM := f\<rparr>) buffer rinfo s = receive env buffer rinfo s"
  using assms by (simp add: receive_def emit_error Let_def)

theorem receive_unknown_witness:
  "map_of (connections sample_socket) (hashAddress sample_env ''10.0.0.9'' 2302) = None
   \<and> receive sample_env [66, 1] \<lparr>address = ''10.0.0.9'', remote_port = 2302\<rparr> sample_socket =
       (None, sample_socket\<lparr>trace := [DgramBind,
         Emit (EvError (UnknownConnection ''10.0.0.9:2302'' ''10.0.0.9'' 2302))]\<rparr>)
   \<and> receive (sample_env\<lparr>Packet_FROM := (\<lambda>b. Inl DecodeError)\<rparr>) [66, 1]
         \<lparr>address = ''10.0.0.9'', remote_port = 2302\<rparr> sample_socket =
       receive sample_env [66, 1] \<lparr>address = ''10.0.0.9'', remote_port = 2302\<rparr> sample_socket"
proof -
  have k: "map_of (connections sample_socket)
     (hashAddress sample_env (address \<lparr>address = ''10.0.0.9'', remote_port = 2302\<rparr>)
        (remote_port \<lparr>address = ''10.0.0.9'', remote_port = 2302\<rparr>)) = None"
    by (simp add: sample_socket_eq)
  have t: "trace sample_socket = [DgramBind]" and l: "error_listeners sample_socket = 1"
    by (simp_all add: sample_socket_eq)
  show ?thesis
    using k t l receive_unknown [OF k, of "[66, 1]" "\<lambda>b. Inl DecodeError"]
    by simp
qed

text \<open>
  C6. When the UDP socket's \<open>send\<close> completes with an error, the promise is rejected with
  exactly that error and the \<open>Socket\<close> is unchanged: no \<open>'sent'\<close> event is emitted and
  \<open>connection.store\<close> is not called.
\<close>

theorem send_callback_error:
  "send_callback env cl (Some e) n s = (Some (Rejected e), s)"
  by (simp add: send_callback_def)

text \<open>
  C2 (amended). \<open>close\<close> is not idempotent: it has no guard and never empties the
  registry. Every call, the first as well as a repeated one, calls \<open>kill(err)\<close> on every
  registered \<open>Connection\<close>, in the order of the registry's keys, then calls \<open>close()\<close> on
  the UDP socket, and throws exactly what that call throws. So a second call kills every
  registered \<open>Connection\<close> a second time and throws whenever the UDP socket throws on
  being closed again.
\<close>

theorem close_twice:
  "close env err s =
     (dgram_close env
        (s\<lparr>trace := trace s @
           map (\<lambda>k. ConnKill (the (map_of (connections s) k)) err) (map fst (connections s))\<rparr>),
      s\<lparr>trace := trace s @
           map (\<lambda>k. ConnKill (the (map_of (connections s) k)) err) (map fst (connections s)) @
           [DgramClose]\<rparr>)
   \<and> close env err' (snd (close env err s)) =
     (dgram_close env
        (s\<lparr>trace := trace s @
           map (\<lambda>k. ConnKill (the (map_of (connections s) k)) err) (map fst (connections s)) @
           [DgramClose] @
           map (\<lambda>k. ConnKill (the (map_of (connections s) k)) err') (map fst (connections s))\<rparr>),
      s\<lparr>trace := trace s @
           map (\<lambda>k. ConnKill (the (map_of (connections s) k)) err) (map fst (connections s)) @
           [DgramClose] @
           map (\<lambda>k. ConnKill (the (map_of (connections s) k)) err') (map fst (connections s)) @
           [DgramClose]\<rparr>)"
  by (simp add: close_eq)

theorem close_twice_witness:
  "close sample_env None sample_socket =
       (None, sample_socket\<lparr>trace := [DgramBind, ConnKill sample_conn None, DgramClose]\<rparr>)
   \<and> close sample_env None (snd (close sample_env None sample_socket)) =
       (Some ERR_SOCKET_DGRAM_NOT_RUNNING,
        sample_socket\<lparr>trace := [DgramBind, ConnKill sample_conn None, DgramClose,
                    ConnKill sample_conn None, DgramClose]\<rparr>)"
proof -
  have c: "connections sample_socket = [(''10.0.0.1:2302'', sample_conn)]"
    and t: "trace sample_socket = [DgramBind]"
    by (simp_all add: sample_socket_eq)
  note th = close_twice [of sample_env None sample_socket None]
  have 1: "close sample_env None sample_socket =
       (None, sample_socket\<lparr>trace := [DgramBind, ConnKill sample_conn None, DgramClose]\<rparr>)"
    using th [THEN conjunct1] by (simp add: c t)
  have 2: "close sample_env None (snd (close sample_env None sample_socket)) =
       (Some ERR_SOCKET_DGRAM_NOT_RUNNING,
        sample_socket\<lparr>trace := [DgramBind, ConnKill sample_conn None, DgramClose,
                    ConnKill sample_conn None, DgramClose]\<rparr>)"
    using th [THEN conjunct2] by (simp add: c t)
  from 1 2 show ?thesis by blast
qed

text \<open>
  C2 as stated fails on a \<open>Socket\<close> with one registered \<open>Connection\<close> on which nothing has
  been sent: the first \<open>close()\<close> returns normally, the second one kills the connection a
  second time and throws the error of closing a UDP socket that is already closed.
\<close>

theorem close_not_idempotent_counterexample:
  "fst (close sample_env None sample_socket) = None
   \<and> fst (close sample_env None (snd (close sample_env None sample_socket))) =
       Some ERR_SOCKET_DGRAM_NOT_RUNNING
   \<and> trace (snd (close sample_env None sample_socket)) =
       [DgramBind, ConnKill sample_conn None, DgramClose]
   \<and> trace (snd (close sample_env None (snd (close sample_env None sample_socket)))) =
       [DgramBind, ConnKill sample_conn None, DgramClose, ConnKill sample_conn None, DgramClose]"
  by (simp add: close_eq sample_socket_eq)

text \<open>
  C9 (amended). The handler of the UDP socket's \<open>'error'\<close> event sets \<open>info.listening\<close> to
  false and emits the error as \<open>'error'\<close> on the \<open>Socket\<close>. If the \<open>Socket\<close> has an
  \<open>'error'\<close> listener, the handler then calls \<open>kill\<close> with that error on every \<open>Connection\<close>
  registered at that moment and then calls \<open>close()\<close> on the UDP socket, in this order and
  doing nothing else, and throws what that \<open>close()\<close> throws. If the \<open>Socket\<close> has no
  \<open>'error'\<close> listener, the emit throws the error out of the handler: no \<open>Connection\<close> is
  killed and \<open>close()\<close> is not called on the UDP socket.
\<close>

theorem on_error_shutdown:
  "(error_listeners s \<noteq> 0 \<longrightarrow>
      on_error env e s =
        (dgram_close env
           (s\<lparr>info_listening := False,
              trace := trace s @ [Emit (EvError e)] @
                map (\<lambda>k. ConnKill (the (map_of (connections s) k)) (Some e))
                  (map fst (connections s))\<rparr>),
         s\<lparr>info_listening := False,
           trace := trace s @ [Emit (EvError e)] @
             map (\<lambda>k. ConnKill (the (map_of (connections s) k)) (Some e))
               (map fst (connections s)) @
             [DgramClose]\<rparr>)
      \<and> (\<forall>k c. map_of (connections s) k = Some c \<longrightarrow>
            ConnKill c (Some e) \<in> set (trace (snd (on_error env e s)))))
   \<and> (error_listeners s = 0 \<longrightarrow>
      on_error env e s =
        (Some e, s\<lparr>info_listening := False, trace := trace s @ [Emit (EvError e)]\<rparr>))"
proof (intro conjI impI allI)
  assume l: "error_listeners s \<noteq> 0"
  then show 1: "on_error env e s =
        (dgram_close env
           (s\<lparr>info_listening := False,
              trace := trace s @ [Emit (EvError e)] @
                map (\<lambda>k. ConnKill (the (map_of (connections s) k)) (Some e))
                  (map fst (connections s))\<rparr>),
         s\<lparr>info_listening := False,
           trace := trace s @ [Emit (EvError e)] @
             map (\<lambda>k. ConnKill (the (map_of (connections s) k)) (Some e))
               (map fst (connections s)) @
             [DgramClose]\<rparr>)"
    by (simp add: on_error_def emit_error close_eq)
  fix k c
  assume "map_of (connections s) k = Some c"
  from kill_mem [OF this, of "Some e"]
  show "ConnKill c (Some e) \<in> set (trace (snd (on_error env e s)))"
    by (simp add: 1)
next
  assume "error_listeners s = 0"
  then show "on_error env e s =
        (Some e, s\<lparr>info_listening := False, trace := trace s @ [Emit (EvError e)]\<rparr>)"
    by (simp add: on_error_def emit_error)
qed

theorem on_error_shutdown_witness:
  "error_listeners (on_listening sample_socket) \<noteq> 0
   \<and> on_error sample_env (OtherError ''EADDRINUSE'') (on_listening sample_socket) =
     (None,
      sample_socket\<lparr>info_listening := False,
        trace := [DgramBind, Emit EvListening, Emit (EvError (OtherError ''EADDRINUSE'')),
                  ConnKill sample_conn (Some (OtherError ''EADDRINUSE'')), DgramClose]\<rparr>)
   \<and> map_of (connections (on_listening sample_socket)) ''10.0.0.1:2302'' = Some sample_conn
   \<and> ConnKill sample_conn (Some (OtherError ''EADDRINUSE''))
       \<in> set (trace (snd (on_error sample_env (OtherError ''EADDRINUSE'')
            (on_listening sample_socket))))
   \<and> error_listeners bare_socket = 0
   \<and> on_error sample_env (OtherError ''EADDRINUSE'') bare_socket =
     (Some (OtherError ''EADDRINUSE''),
      bare_socket\<lparr>trace := [DgramBind, Emit (EvError (OtherError ''EADDRINUSE''))]\<rparr>)"
proof -
  have s: "on_listening sample_socket =
      sample_socket\<lparr>info_listening := True, trace := [DgramBind, Emit EvListening]\<rparr>"
    by (simp add: on_listening_eq sample_socket_eq)
  have l: "error_listeners (on_listening sample_socket) \<noteq> 0"
    unfolding s by (simp add: sample_socket_eq)
  have k: "map_of (connections (on_listening sample_socket)) ''10.0.0.1:2302'' = Some sample_conn"
    unfolding s by (simp add: sample_socket_eq)
  have b: "error_listeners bare_socket = 0"
    by (simp add: bare_socket_eq)
  note th = on_error_shutdown [of "on_listening sample_socket" sample_env
      "OtherError ''EADDRINUSE''", THEN conjunct1, rule_format, OF l]
  have 1: "on_error sample_env (OtherError ''EADDRINUSE'') (on_listening sample_socket) =
     (None,
      sample_socket\<lparr>info_listening := False,
        trace := [DgramBind, Emit EvListening, Emit (EvError (OtherError ''EADDRINUSE'')),
                  ConnKill sample_conn (Some (OtherError ''EADDRINUSE'')), DgramClose]\<rparr>)"
    using th [THEN conjunct1] unfolding s by (simp add: sample_socket_eq)
  have 2: "ConnKill sample_conn (Some (OtherError ''EADDRINUSE''))
       \<in> set (trace (snd (on_error sample_env (OtherError ''EADDRINUSE'')
            (on_listening sample_socket))))"
    using th [THEN conjunct2, rule_format, OF k] .
  have 3: "on_error sample_env (OtherError ''EADDRINUSE'') bare_socket =
     (Some (OtherError ''EADDRINUSE''),
      bare_socket\<lparr>trace := [DgramBind, Emit (EvError (OtherError ''EADDRINUSE''))]\<rparr>)"
    using on_error_shutdown [of bare_socket sample_env "OtherError ''EADDRINUSE''",
        THEN conjunct2, rule_format, OF b]
    by (simp add: bare_socket_eq)
  from l 1 k 2 b 3 show ?thesis by blast
qed

text \<open>
  C9 as stated fails on a \<open>Socket\<close> as the constructor leaves it, with no \<open>'error'\<close>
  listener, and one registered \<open>Connection\<close>: the handler throws at the emit, the
  connection is not killed and \<open>close()\<close> is not called on the UDP socket.
\<close>

theorem on_error_no_listener_counterexample:
  "map_of (connections bare_socket) ''10.0.0.1:2302'' = Some sample_conn
   \<and> fst (on_error sample_env (OtherError ''EADDRINUSE'') bare_socket) =
       Some (OtherError ''EADDRINUSE'')
   \<and> trace (snd (on_error sample_env (OtherError ''EADDRINUSE'') bare_socket)) =
       [DgramBind, Emit (EvError (OtherError ''EADDRINUSE''))]
   \<and> ConnKill sample_conn (Some (OtherError ''EADDRINUSE''))
       \<notin> set (trace (snd (on_error sample_env (OtherError ''EADDRINUSE'') bare_socket)))
   \<and> DgramClose \<notin> set (trace (snd (on_error sample_env (OtherError ''EADDRINUSE'') bare_socket)))"
  by (simp add: on_error_def emit_error bare_socket_eq)

text \<open>
  C7. \<open>send\<close> with a valid packet and a \<open>Connection\<close>: a \<open>Command\<close> packet whose sequence
  is negative gets the value of \<open>connection.sequence\<close> as its sequence, and it is this
  packet that is serialised and whose bytes are handed to the UDP socket; a packet of
  another kind, or a \<open>Command\<close> with a sequence already assigned, is serialised and sent
  with its sequence unchanged. (The promise stays pending for the callback when the UDP
  socket's \<open>send\<close> does not throw.)
\<close>

theorem send_assigns_sequence:
  assumes "valid p"
  shows "let p' = (if ptype p = Command \<and> sequence p < 0
                   then p\<lparr>sequence := conn_sequence env c\<rparr> else p)
         in fst (snd (send env (Instance c) (Instance p) resolve s)) = Instance p'
          \<and> (\<forall>e. serialize env p' = Inl e \<longrightarrow>
                send env (Instance c) (Instance p) resolve s =
                  (Settled (Rejected e), Instance p', s))
          \<and> (\<forall>buffer. serialize env p' = Inr buffer \<longrightarrow>
                snd (snd (send env (Instance c) (Instance p) resolve s)) =
                  s\<lparr>trace := trace s @
                    [DgramSend buffer 0 (length buffer) (conn_port c) (conn_ip c)]\<rparr>)
          \<and> (\<forall>buffer. serialize env p' = Inr buffer
                \<and> dgram_send env s buffer 0 (length buffer) (conn_port c) (conn_ip c) = None \<longrightarrow>
                send env (Instance c) (Instance p) resolve s =
                  (Sending \<lparr>closure_packet = p', closure_buffer = buffer,
                     closure_connection = c,
                     closure_resolve = (case resolve of None \<Rightarrow> True | Some b \<Rightarrow> b)\<rparr>,
                   Instance p',
                   s\<lparr>trace := trace s @
                     [DgramSend buffer 0 (length buffer) (conn_port c) (conn_ip c)]\<rparr>))"
  using assms
  by (auto simp: send_valid assign_sequence_def Let_def split: sum.splits option.splits)

theorem send_assigns_sequence_witness:
  "valid sample_command \<and> ptype sample_command = Command \<and> sequence sample_command < 0
   \<and> dgram_send sample_env sample_socket [66, 1, 2] 0 3 2302 ''10.0.0.1'' = None
   \<and> serialize sample_env (sample_command\<lparr>sequence := 7\<rparr>) = Inr [66, 1, 2]
   \<and> send sample_env (Instance sample_conn) (Instance sample_command) None sample_socket =
       (Sending \<lparr>closure_packet = sample_command\<lparr>sequence := 7\<rparr>, closure_buffer = [66, 1, 2],
          closure_connection = sample_conn, closure_resolve = True\<rparr>,
        Instance (sample_command\<lparr>sequence := 7\<rparr>),
        sample_socket\<lparr>trace := [DgramBind, DgramSend [66, 1, 2] 0 3 2302 ''10.0.0.1'']\<rparr>)"
proof -
  have v: "valid sample_command"
    by (simp add: sample_command_def)
  have k: "ptype sample_command = Command \<and> sequence sample_command < 0"
    by (simp add: sample_command_def)
  have q: "conn_sequence sample_env sample_conn = 7"
    by (simp add: sample_env_def)
  have b: "serialize sample_env (sample_command\<lparr>sequence := 7\<rparr>) = Inr [66, 1, 2]"
    by (simp add: sample_env_def sample_command_def)
  have t: "trace sample_socket = [DgramBind]"
    by (simp add: sample_socket_eq)
  have r: "dgram_send sample_env sample_socket [66, 1, 2] 0 3 2302 ''10.0.0.1'' = None"
    by (simp add: t)
  have c: "conn_port sample_conn = 2302" "conn_ip sample_conn = ''10.0.0.1''"
    by (simp_all add: sample_conn_eq)
  from send_assigns_sequence [OF v, of sample_env sample_conn None sample_socket]
  have "send sample_env (Instance sample_conn) (Instance sample_command) None sample_socket =
       (Sending \<lparr>closure_packet = sample_command\<lparr>sequence := 7\<rparr>, closure_buffer = [66, 1, 2],
          closure_connection = sample_conn, closure_resolve = True\<rparr>,
        Instance (sample_command\<lparr>sequence := 7\<rparr>),
        sample_socket\<lparr>trace := [DgramBind, DgramSend [66, 1, 2] 0 3 2302 ''10.0.0.1'']\<rparr>)"
    using k q b r t c by (simp add: Let_def)
  with v k r b show ?thesis by simp
qed

text \<open>
  C8. When \<open>send\<close> was called with \<open>resolve == false\<close> and the UDP socket's \<open>send\<close>
  completes without error, reporting \<open>n\<close> bytes, the promise resolves at once with
  \<open>bytes = n\<close>, \<open>sent\<close> the packet, \<open>received\<close> undefined and the connection; the only
  effect is the \<open>'sent'\<close> event, so \<open>connection.store\<close> is not called.
\<close>

theorem send_callback_untracked:
  assumes "send env conn packet (Some False) s = (Sending cl, packet', s1)"
  shows "packet' = Instance (closure_packet cl) \<and> conn = Instance (closure_connection cl)
     \<and> send_callback env cl None n s2 =
         (Some (Resolved \<lparr>bytes = n, sent = closure_packet cl, received = None,
                          response_connection = closure_connection cl\<rparr>),
          s2\<lparr>trace := trace s2 @
            [Emit (EvSent (closure_packet cl) (closure_buffer cl) n (closure_connection cl))]\<rparr>)"
proof -
  from assms have r: "\<not> closure_resolve cl"
    and p: "packet' = Instance (closure_packet cl)" and c: "conn = Instance (closure_connection cl)"
    by (auto simp: send_def Let_def
          split: arg.splits if_splits sum.splits prod.splits option.splits)
  from r p c show ?thesis
    by (simp add: send_callback_def snd_emit)
qed

theorem send_callback_untracked_witness:
  "send sample_env (Instance sample_conn) (Instance sample_command) (Some False) sample_socket =
     (Sending \<lparr>closure_packet = sample_command\<lparr>sequence := 7\<rparr>, closure_buffer = [66, 1, 2],
        closure_connection = sample_conn, closure_resolve = False\<rparr>,
      Instance (sample_command\<lparr>sequence := 7\<rparr>),
      sample_socket\<lparr>trace := [DgramBind, DgramSend [66, 1, 2] 0 3 2302 ''10.0.0.1'']\<rparr>)
   \<and> send_callback sample_env
        \<lparr>closure_packet = sample_command\<lparr>sequence := 7\<rparr>, closure_buffer = [66, 1, 2],
         closure_connection = sample_conn, closure_resolve = False\<rparr>
        None 3
        (sample_socket\<lparr>trace := [DgramBind, DgramSend [66, 1, 2] 0 3 2302 ''10.0.0.1'']\<rparr>) =
       (Some (Resolved \<lparr>bytes = 3, sent = sample_command\<lparr>sequence := 7\<rparr>, received = None,
                        response_connection = sample_conn\<rparr>),
        sample_socket\<lparr>trace := [DgramBind, DgramSend [66, 1, 2] 0 3 2302 ''10.0.0.1'',
           Emit (EvSent (sample_command\<lparr>sequence := 7\<rparr>) [66, 1, 2] 3 sample_conn)]\<rparr>)"
proof -
  have v: "valid sample_command"
    by (simp add: sample_command_def)
  have a: "assign_sequence sample_env sample_conn sample_command = sample_command\<lparr>sequence := 7\<rparr>"
    by (simp add: assign_sequence_def sample_command_def sample_env_def)
  have b: "serialize sample_env (sample_command\<lparr>sequence := 7\<rparr>) = Inr [66, 1, 2]"
    by (simp add: sample_env_def sample_command_def)
  have t: "trace sample_socket = [DgramBind]"
    by (simp add: sample_socket_eq)
  have r: "dgram_send sample_env sample_socket [66, 1, 2] 0 3 2302 ''10.0.0.1'' = None"
    by (simp add: t)
  have c: "conn_port sample_conn = 2302" "conn_ip sample_conn = ''10.0.0.1''"
    by (simp_all add: sample_conn_eq)
  have s: "send sample_env (Instance sample_conn) (Instance sample_command) (Some False)
      sample_socket =
     (Sending \<lparr>closure_packet = sample_command\<lparr>sequence := 7\<rparr>, closure_buffer = [66, 1, 2],
        closure_connection = sample_conn, closure_resolve = False\<rparr>,
      Instance (sample_command\<lparr>sequence := 7\<rparr>),
      sample_socket\<lparr>trace := [DgramBind, DgramSend [66, 1, 2] 0 3 2302 ''10.0.0.1'']\<rparr>)"
    by (simp add: send_valid [OF v] a b r t c)
  from send_callback_untracked [OF s, of 3
      "sample_socket\<lparr>trace := [DgramBind, DgramSend [66, 1, 2] 0 3 2302 ''10.0.0.1'']\<rparr>"]
  show ?thesis
    using s by simp
qed

text \<open>
  C10. \<open>connection\<close> with \<open>connect\<close> omitted or true, for an address not yet registered:
  the \<open>Connection\<close> is returned and registered in every case. If the \<open>Socket\<close> is listening,
  \<open>connect()\<close> is called during the call. If it is not, \<open>connect()\<close> is not called during
  the call; a one-shot listener is registered instead, and the \<open>'listening'\<close> event of the
  UDP socket calls \<open>connect()\<close>. In both cases a rejection of that \<open>connect()\<close> with \<open>e\<close>
  is emitted as \<open>'error'\<close> on the \<open>Socket\<close> and leaves the registry as it is.
\<close>

theorem connection_auto_connect:
  assumes fresh: "map_of (connections s) (hashAddress env (ip details) (port details)) = None"
    and auto: "connect = None \<or> connect = Some True"
  shows "let conn = new_Connection env details (case options of None \<Rightarrow> [] | Some opts \<Rightarrow> opts);
             r = connection env details options connect s
         in fst r = Inr conn
          \<and> map_of (connections (snd r)) (conn_id conn) = Some conn
          \<and> (listening s \<longrightarrow>
                trace (snd r) = trace s @ [ConnConnect conn]
              \<and> socket_once_listening (snd r) = socket_once_listening s
              \<and> conn \<in> set (connecting (snd r))
              \<and> trace (connect_rejected conn e (snd r)) = trace (snd r) @ [Emit (EvError e)]
              \<and> connections (connect_rejected conn e (snd r)) = connections (snd r))
          \<and> (\<not> listening s \<longrightarrow>
                trace (snd r) = trace s
              \<and> connecting (snd r) = connecting s
              \<and> socket_once_listening (snd r) = socket_once_listening s @ [conn]
              \<and> trace (on_listening (snd r)) =
                  trace s @ [Emit EvListening] @ map ConnConnect (socket_once_listening s) @
                  [ConnConnect conn]
              \<and> conn \<in> set (connecting (on_listening (snd r)))
              \<and> trace (connect_rejected conn e (on_listening (snd r))) =
                  trace (on_listening (snd r)) @ [Emit (EvError e)]
              \<and> connections (connect_rejected conn e (on_listening (snd r))) =
                  connections (snd r))"
proof -
  let ?conn = "new_Connection env details (case options of None \<Rightarrow> [] | Some opts \<Rightarrow> opts)"
  let ?key = "hashAddress env (ip details) (port details)"
  have id: "conn_id ?conn = ?key"
    by (simp add: new_Connection_def)
  have c: "(case connect of None \<Rightarrow> True | Some b \<Rightarrow> b)"
    using auto by auto
  have r: "connection env details options connect s =
      (Inr ?conn,
       (if listening s then connect_catch ?conn s
        else s\<lparr>socket_once_listening := socket_once_listening s @ [?conn]\<rparr>)
       \<lparr>connections := connections s @ [(?key, ?conn)]\<rparr>)"
    using fresh c
    by (simp add: connection_def Let_def id update_fresh connect_catch_def
          del: AList.update.simps)
  have m: "map_of (connections s @ [(?key, ?conn)]) ?key = Some ?conn"
    using fresh by (simp add: map_add_Some_iff)
  show ?thesis
    unfolding Let_def r
    using m
    by (simp add: id connect_catch_def connect_rejected_def snd_emit on_listening_eq)
qed

theorem connection_auto_connect_witness:
  "map_of (connections new_Socket) (hashAddress sample_env (ip sample_details) (port sample_details))
     = None
   \<and> \<not> listening new_Socket
   \<and> connection sample_env sample_details None None new_Socket =
       (Inr sample_conn,
        new_Socket\<lparr>connections := [(''10.0.0.1:2302'', sample_conn)],
          socket_once_listening := [sample_conn]\<rparr>)
   \<and> trace (on_listening (snd (connection sample_env sample_details None None new_Socket))) =
       [DgramBind, Emit EvListening, ConnConnect sample_conn]
   \<and> trace (connect_rejected sample_conn (OtherError ''timeout'')
        (on_listening (snd (connection sample_env sample_details None None new_Socket)))) =
       [DgramBind, Emit EvListening, ConnConnect sample_conn,
        Emit (EvError (OtherError ''timeout''))]
   \<and> listening (on_listening new_Socket)
   \<and> trace (snd (connection sample_env sample_details None (Some True) (on_listening new_Socket))) =
       [DgramBind, Emit EvListening, ConnConnect sample_conn]
   \<and> trace (connect_rejected sample_conn (OtherError ''timeout'')
        (snd (connection sample_env sample_details None (Some True) (on_listening new_Socket)))) =
       [DgramBind, Emit EvListening, ConnConnect sample_conn,
        Emit (EvError (OtherError ''timeout''))]"
proof -
  have n: "sample_conn = new_Connection sample_env sample_details (case None of None \<Rightarrow> [] | Some opts \<Rightarrow> opts)"
    by (simp add: sample_conn_def)
  have f1: "map_of (connections new_Socket)
      (hashAddress sample_env (ip sample_details) (port sample_details)) = None"
    by (simp add: new_Socket_def)
  have f2: "map_of (connections (on_listening new_Socket))
      (hashAddress sample_env (ip sample_details) (port sample_details)) = None"
    by (simp add: on_listening_eq new_Socket_def)
  have l1: "\<not> listening new_Socket"
    by (simp add: listening_def new_Socket_def)
  have l2: "listening (on_listening new_Socket)"
    by (simp add: listening_def on_listening_eq)
  have t: "trace new_Socket = [DgramBind]" "socket_once_listening new_Socket = []"
    "trace (on_listening new_Socket) = [DgramBind, Emit EvListening]"
    by (simp_all add: on_listening_eq new_Socket_def)
  have r: "connection sample_env sample_details None None new_Socket =
       (Inr sample_conn,
        new_Socket\<lparr>connections := [(''10.0.0.1:2302'', sample_conn)],
          socket_once_listening := [sample_conn]\<rparr>)"
    using sample_conn_eq
    by (simp add: connection_def Let_def listening_def new_Socket_def sample_conn_def)
  note a = connection_auto_connect [OF f1 disjI1 [OF refl], of None "OtherError ''timeout''",
      unfolded Let_def n [symmetric]]
  note b = connection_auto_connect [OF f2 disjI2 [OF refl], of None "OtherError ''timeout''",
      unfolded Let_def n [symmetric]]
  from a l1 have a1:
    "trace (on_listening (snd (connection sample_env sample_details None None new_Socket))) =
       [DgramBind, Emit EvListening, ConnConnect sample_conn]"
    and a2: "trace (connect_rejected sample_conn (OtherError ''timeout'')
        (on_listening (snd (connection sample_env sample_details None None new_Socket)))) =
       [DgramBind, Emit EvListening, ConnConnect sample_conn,
        Emit (EvError (OtherError ''timeout''))]"
    by (simp_all add: t)
  from b l2 have b1:
    "trace (snd (connection sample_env sample_details None (Some True) (on_listening new_Socket))) =
       [DgramBind, Emit EvListening, ConnConnect sample_conn]"
    and b2: "trace (connect_rejected sample_conn (OtherError ''timeout'')
        (snd (connection sample_env sample_details None (Some True) (on_listening new_Socket)))) =
       [DgramBind, Emit EvListening, ConnConnect sample_conn,
        Emit (EvError (OtherError ''timeout''))]"
    by (simp_all add: t)
  from f1 l1 r a1 a2 l2 b1 b2 show ?thesis by blast
qed

end
